theory Spec2Isabelle
  imports Complex_Main "HOL-Library.Word"
begin

section \<open>Voxel values and arrays\<close>

text \<open>
  The interfaces of \<^verbatim>\<open>niworkflows/interfaces/nibabel.py\<close> work on numpy arrays of
  floating-point voxels. Every arithmetic step they take is exact (a comparison, a
  product with a boolean, an assignment of \<^verbatim>\<open>0.0\<close>), so a voxel is modelled by the
  number it denotes, together with the three IEEE values that are not numbers.
  The two signed zeros are both \<open>Num 0\<close>.
\<close>

datatype fval = Num real | PosInf | NegInf | NaN

text \<open>\<^verbatim>\<open>x > t\<close> on floats: false as soon as one side is NaN.\<close>

fun greater :: "fval \<Rightarrow> fval \<Rightarrow> bool" where
  "greater NaN t = False"
| "greater x NaN = False"
| "greater (Num a) (Num b) = (b < a)"
| "greater (Num a) NegInf = True"
| "greater (Num a) PosInf = False"
| "greater PosInf PosInf = False"
| "greater PosInf t = True"
| "greater NegInf t = False"

text \<open>\<^verbatim>\<open>x * b\<close> for a float \<open>x\<close> and a boolean \<open>b\<close> (True is 1.0, False is 0.0).\<close>

fun times_bool :: "fval \<Rightarrow> bool \<Rightarrow> fval" where
  "times_bool x True = x"
| "times_bool (Num a) False = Num 0"
| "times_bool x False = NaN"

fun isfinite :: "fval \<Rightarrow> bool" where
  "isfinite (Num a) = True"
| "isfinite x = False"

text \<open>A numpy array: its shape and its elements in C order (last axis fastest).\<close>

record 'a ndarray =
  shape :: "nat list"
  elems :: "'a list"

definition ndim :: "'a ndarray \<Rightarrow> nat" where
  "ndim a = length (shape a)"

definition wf_array :: "'a ndarray \<Rightarrow> bool" where
  "wf_array a = (length (elems a) = prod_list (shape a))"

text \<open>The offset of a multi-index in C order, and \<^verbatim>\<open>a[i, j, ...]\<close>.\<close>

fun ravel :: "nat list \<Rightarrow> nat list \<Rightarrow> nat" where
  "ravel (n # ns) (i # idx) = i * prod_list ns + ravel ns idx"
| "ravel ns idx = 0"

definition getitem :: "'a ndarray \<Rightarrow> nat list \<Rightarrow> 'a" where
  "getitem a idx = elems a ! ravel (shape a) idx"

definition valid_index :: "nat list \<Rightarrow> nat list \<Rightarrow> bool" where
  "valid_index s idx = list_all2 (<) idx s"

text \<open>All the multi-indices of a shape, in C order (\<^verbatim>\<open>np.ndindex\<close>).\<close>

definition ndindex :: "nat list \<Rightarrow> nat list list" where
  "ndindex s = product_lists (map (\<lambda>n. [0..<n]) s)"

text \<open>\<^verbatim>\<open>a > t\<close>, \<^verbatim>\<open>m[..., np.newaxis]\<close>, \<^verbatim>\<open>data[~mask] = 0.0\<close> and
  \<^verbatim>\<open>mask.astype('uint8')\<close>.\<close>

definition greater_than :: "fval ndarray \<Rightarrow> fval \<Rightarrow> bool ndarray" where
  "greater_than a t = \<lparr>shape = shape a, elems = map (\<lambda>x. greater x t) (elems a)\<rparr>"

definition newaxis :: "'a ndarray \<Rightarrow> 'a ndarray" where
  "newaxis m = m\<lparr>shape := shape m @ [1]\<rparr>"

definition zero_outside :: "fval ndarray \<Rightarrow> bool ndarray \<Rightarrow> fval ndarray" where
  "zero_outside data msk =
     data\<lparr>elems := map2 (\<lambda>x b. if b then x else Num 0) (elems data) (elems msk)\<rparr>"

definition astype_uint8 :: "bool ndarray \<Rightarrow> 8 word ndarray" where
  "astype_uint8 msk = \<lparr>shape = shape msk, elems = map (\<lambda>b. if b then 1 else 0) (elems msk)\<rparr>"

text \<open>
  numpy broadcasting: the shapes are aligned at their last axis; two sizes are compatible
  when they are equal or one of them is 1. The first function works on reversed shapes.
\<close>

fun broadcast_rev :: "nat list \<Rightarrow> nat list \<Rightarrow> nat list option" where
  "broadcast_rev [] ys = Some ys"
| "broadcast_rev xs [] = Some xs"
| "broadcast_rev (x # xs) (y # ys) =
     (if x = y \<or> y = 1 then map_option ((#) x) (broadcast_rev xs ys)
      else if x = 1 then map_option ((#) y) (broadcast_rev xs ys)
      else None)"

definition broadcast_shapes :: "nat list \<Rightarrow> nat list \<Rightarrow> nat list option" where
  "broadcast_shapes s1 s2 = map_option rev (broadcast_rev (rev s1) (rev s2))"

text \<open>The index into an operand of shape \<open>s\<close> that the index \<open>idx\<close> of the result reads.\<close>

definition bcast_index :: "nat list \<Rightarrow> nat list \<Rightarrow> nat list" where
  "bcast_index s idx =
     map2 (\<lambda>d i. if d = 1 then 0 else i) s (drop (length idx - length s) idx)"

section \<open>Errors, paths, images and the file system\<close>

text \<open>
  The exceptions of the module, under the names of the specification:
  \<^item> \<open>ShapeMismatch\<close> is \<^verbatim>\<open>ValueError("Image and mask sizes do not match.")\<close>;
  \<^item> \<open>GeometryMismatch\<close> is \<^verbatim>\<open>ValueError("Image and mask affines are not similar enough.")\<close>
    and the \<^verbatim>\<open>ValueError\<close> of \<^verbatim>\<open>nb.concat_images\<close> on frames of different shape or affine;
  \<^item> \<open>DimensionError n\<close> is \<^verbatim>\<open>RuntimeError(f"Input image image is {ndim}D.")\<close> and
    \<^verbatim>\<open>ValueError("Input image has an incorrect number of dimensions" f" ({ndim}).")\<close>;
  \<^item> \<open>NameError\<close> is Python's error on reading a global name that is not bound;
  \<^item> the others are errors of numpy, nibabel and Python that the module lets through.
\<close>

datatype error =
    ShapeMismatch
  | GeometryMismatch
  | DimensionError nat
  | NameError string
  | FileNotFoundError
  | BroadcastError
  | EmptyImageList
  | ExpectingFourDimensions
  | TypeError
  | IndexError

datatype outcome = Returned | Raised error

text \<open>A file name, as \<^verbatim>\<open>split_filename\<close> of nipype takes it apart.\<close>

record path =
  dirname :: string
  stem :: string
  ext :: string

text \<open>\<^verbatim>\<open>fname_presuffix(fname, suffix=..., newpath=...)\<close>\<close>

definition fname_presuffix :: "path \<Rightarrow> string \<Rightarrow> string option \<Rightarrow> path" where
  "fname_presuffix fname suffix newpath =
     \<lparr>dirname = (case newpath of None \<Rightarrow> dirname fname | Some d \<Rightarrow> d),
      stem = stem fname @ suffix, ext = ext fname\<rparr>"

text \<open>The format \<^verbatim>\<open>{i:03}\<close>: decimal digits, padded with zeros to three characters.\<close>

definition digit :: "nat \<Rightarrow> char" where
  "digit n = char_of (48 + n)"

fun dec :: "nat \<Rightarrow> string" where
  "dec n = (if n < 10 then [digit n] else dec (n div 10) @ [digit (n mod 10)])"

declare dec.simps [simp del]

definition fmt03 :: "nat \<Rightarrow> string" where
  "fmt03 i = replicate (3 - length (dec i)) (CHR ''0'') @ dec i"

text \<open>
  The module uses \<^verbatim>\<open>Path\<close> (lines 117 and 129) and imports numpy, nibabel and names of
  nipype only: \<^verbatim>\<open>Path\<close> is not bound, and reading it raises \<^verbatim>\<open>NameError\<close>. Python
  evaluates the callee of a call before its arguments.
\<close>

definition Path :: "path \<Rightarrow> error + path" where
  "Path p = Inl (NameError ''Path'')"

datatype dtype = uint8 | int16 | int32 | float32 | float64

text \<open>
  A header: the data type tag, the affine it encodes, and the rest, which is opaque.
  An affine is a 4 x 4 matrix, row by row.
\<close>

record header =
  data_dtype :: dtype
  best_affine :: "real list"
  hdr_fields :: string

text \<open>
  An image in memory. \<open>affine\<close> is \<open>None\<close> for an image built with \<^verbatim>\<open>None\<close> as its
  affine, as \<^verbatim>\<open>ApplyMask\<close> does.
\<close>

record 'a image =
  dataobj :: "'a ndarray"
  affine :: "real list option"
  header :: header

definition new_image :: "'a ndarray \<Rightarrow> real list option \<Rightarrow> header \<Rightarrow> 'a image" where
  "new_image data aff hdr = \<lparr>dataobj = data, affine = aff, header = hdr\<rparr>"

text \<open>A file holds the voxels and the header; the affine is part of the header.\<close>

record nifti_file =
  f_dataobj :: "fval ndarray"
  f_header :: header

type_synonym filesystem = "path \<rightharpoonup> nifti_file"

definition nb_load :: "filesystem \<Rightarrow> path \<Rightarrow> error + fval image" where
  "nb_load d f =
     (case d f of
        None \<Rightarrow> Inl FileNotFoundError
      | Some file \<Rightarrow>
          Inr \<lparr>dataobj = f_dataobj file, affine = Some (best_affine (f_header file)),
               header = f_header file\<rparr>)"

text \<open>\<^verbatim>\<open>img.get_fdata()\<close>: the voxels as floats; the numbers do not change.\<close>

definition get_fdata :: "fval image \<Rightarrow> fval ndarray" where
  "get_fdata img = dataobj img"

text \<open>
  \<^verbatim>\<open>np.allclose(a, b)\<close> with numpy's default tolerances (rtol 1e-05, atol 1e-08):
  every entry satisfies \<^verbatim>\<open>|a - b| <= atol + rtol * |b|\<close>.
\<close>

definition isclose :: "real \<Rightarrow> real \<Rightarrow> bool" where
  "isclose a b = (\<bar>a - b\<bar> \<le> 1 / 10 ^ 8 + (1 / 10 ^ 5) * \<bar>b\<bar>)"

definition allclose :: "real list \<Rightarrow> real list \<Rightarrow> bool" where
  "allclose a b = list_all2 isclose a b"

text \<open>
  \<^verbatim>\<open>update_header\<close> of nibabel, which \<^verbatim>\<open>to_filename\<close> runs: the affine of the image
  goes into the header unless it is absent or close to the header's own. Then the file is
  written.
\<close>

definition update_header :: "'a image \<Rightarrow> header" where
  "update_header img =
     (case affine img of
        None \<Rightarrow> header img
      | Some a \<Rightarrow>
          if allclose a (best_affine (header img)) then header img
          else (header img)\<lparr>best_affine := a\<rparr>)"

definition to_filename :: "fval image \<Rightarrow> path \<Rightarrow> filesystem \<Rightarrow> filesystem" where
  "to_filename img f d = d(f \<mapsto> \<lparr>f_dataobj = dataobj img, f_header = update_header img\<rparr>)"

definition uint8_values :: "8 word ndarray \<Rightarrow> fval ndarray" where
  "uint8_values a = \<lparr>shape = shape a, elems = map (\<lambda>w. Num (real (unat w))) (elems a)\<rparr>"

definition to_filename_uint8 :: "8 word image \<Rightarrow> path \<Rightarrow> filesystem \<Rightarrow> filesystem" where
  "to_filename_uint8 img f d =
     d(f \<mapsto> \<lparr>f_dataobj = uint8_values (dataobj img), f_header = update_header img\<rparr>)"

text \<open>The state an interface runs in: its \<^verbatim>\<open>_results\<close> dictionary and the files.\<close>

datatype res = Single path | Multi "path list"

record state =
  results :: "string \<rightharpoonup> res"
  disk :: filesystem

section \<open>The operations of numpy and nibabel that the interfaces call\<close>

text \<open>
  \<^verbatim>\<open>a * m\<close> for a float array and a boolean array: the shapes are broadcast, and numpy
  raises \<^verbatim>\<open>ValueError\<close> when they are not compatible.
\<close>

definition multiply :: "fval ndarray \<Rightarrow> bool ndarray \<Rightarrow> error + fval ndarray" where
  "multiply a m =
     (case broadcast_shapes (shape a) (shape m) of
        None \<Rightarrow> Inl BroadcastError
      | Some s \<Rightarrow>
          Inr \<lparr>shape = s,
               elems = map (\<lambda>idx. times_bool (getitem a (bcast_index (shape a) idx))
                                              (getitem m (bcast_index (shape m) idx)))
                           (ndindex s)\<rparr>)"

text \<open>
  \<^verbatim>\<open>nb.squeeze_image\<close> removes the axes of length 1 at the end of the shape, from the
  fourth axis on; the elements, the affine and the header stay.
\<close>

definition squeeze_shape :: "nat list \<Rightarrow> nat list" where
  "squeeze_shape s = take 3 s @ rev (dropWhile (\<lambda>d. d = 1) (rev (drop 3 s)))"

definition squeeze_image :: "'a image \<Rightarrow> 'a image" where
  "squeeze_image img =
     new_image ((dataobj img)\<lparr>shape := squeeze_shape (shape (dataobj img))\<rparr>)
       (affine img) (header img)"

text \<open>\<^verbatim>\<open>arr[..., i]\<close>\<close>

definition last_axis_slice :: "'a ndarray \<Rightarrow> nat \<Rightarrow> 'a ndarray" where
  "last_axis_slice arr i =
     \<lparr>shape = butlast (shape arr),
      elems = map (\<lambda>p. elems arr ! (p * last (shape arr) + i))
                  [0..<prod_list (butlast (shape arr))]\<rparr>"

text \<open>
  \<^verbatim>\<open>nb.four_to_three\<close>: one image for each index of the fourth axis, in that order,
  each with the affine and the header of the input.
\<close>

definition four_to_three :: "'a image \<Rightarrow> error + 'a image list" where
  "four_to_three img =
     (let arr = dataobj img in
      if ndim arr \<noteq> 4 then Inl ExpectingFourDimensions
      else Inr (map (\<lambda>i. new_image (last_axis_slice arr i) (affine img) (header img))
                    [0..<last (shape arr)]))"

text \<open>
  \<^verbatim>\<open>nb.concat_images(images)\<close> with its defaults (\<^verbatim>\<open>check_affines=True, axis=None\<close>):
  an empty list is an error; every image must have the shape of the first one, and its
  affine must be equal to that of the first one (\<^verbatim>\<open>np.all(img.affine == affine)\<close>);
  the arrays are stacked along a new last axis; affine and header are those of the first
  image.
\<close>

definition stack_last :: "nat list \<Rightarrow> 'a ndarray list \<Rightarrow> 'a ndarray" where
  "stack_last shape0 arrs =
     \<lparr>shape = shape0 @ [length arrs],
      elems = concat (map (\<lambda>p. map (\<lambda>a. elems a ! p) arrs) [0..<prod_list shape0])\<rparr>"

definition concat_images :: "fval image list \<Rightarrow> error + fval image" where
  "concat_images images =
     (case images of
        [] \<Rightarrow> Inl EmptyImageList
      | img0 # rest \<Rightarrow>
          if list_ex (\<lambda>img. shape (dataobj img) \<noteq> shape (dataobj img0)
                            \<or> affine img \<noteq> affine img0) images
          then Inl GeometryMismatch
          else Inr (new_image (stack_last (shape (dataobj img0)) (map dataobj images))
                      (affine img0) (header img0)))"

section \<open>ApplyMask\<close>

definition ApplyMask_run_interface ::
  "path \<Rightarrow> path \<Rightarrow> fval \<Rightarrow> string \<Rightarrow> state \<Rightarrow> outcome \<times> state" where
  "ApplyMask_run_interface in_file in_mask threshold cwd st =
     (case nb_load (disk st) in_file of
        Inl e \<Rightarrow> (Raised e, st)
      | Inr img \<Rightarrow>
     (case nb_load (disk st) in_mask of
        Inl e \<Rightarrow> (Raised e, st)
      | Inr msknii \<Rightarrow>
     (let msk = greater_than (get_fdata msknii) threshold;
          out_file = fname_presuffix in_file ''_masked'' (Some cwd);
          st1 = st\<lparr>results := (results st)(''out_file'' \<mapsto> Single out_file)\<rparr>
      in
        if take 3 (shape (dataobj img)) \<noteq> shape msk then (Raised ShapeMismatch, st1)
        else
     (case (affine img, affine msknii) of
        (Some a, Some b) \<Rightarrow>
          if \<not> allclose a b then (Raised GeometryMismatch, st1)
          else
            (let msk1 = (if ndim (dataobj img) = ndim msk + 1 then newaxis msk else msk) in
             case multiply (dataobj img) msk1 of
               Inl e \<Rightarrow> (Raised e, st1)
             | Inr product \<Rightarrow>
                 (let masked = new_image product None (header img) in
                  (Returned, st1\<lparr>disk := to_filename masked out_file (disk st1)\<rparr>)))
      | _ \<Rightarrow> (Raised TypeError, st1)))))"

section \<open>Binarize\<close>

definition Binarize_run_interface ::
  "path \<Rightarrow> fval \<Rightarrow> string \<Rightarrow> state \<Rightarrow> outcome \<times> state" where
  "Binarize_run_interface in_file thresh_low cwd st =
     (case nb_load (disk st) in_file of
        Inl e \<Rightarrow> (Raised e, st)
      | Inr img \<Rightarrow>
     (let out_file = fname_presuffix in_file ''_masked'' (Some cwd);
          out_mask = fname_presuffix in_file ''_mask'' (Some cwd);
          st1 = st\<lparr>results := (results st)(''out_file'' \<mapsto> Single out_file,
                                               ''out_mask'' \<mapsto> Single out_mask)\<rparr>;
          data = get_fdata img;
          msk = greater_than data thresh_low;
          data1 = zero_outside data msk;
          masked = new_image data1 (affine img) (header img);
          st2 = st1\<lparr>disk := to_filename masked out_file (disk st1)\<rparr>;
          hdr = (header img)\<lparr>data_dtype := uint8\<rparr>;
          maskimg = new_image (astype_uint8 msk) (affine img) hdr
      in (Returned, st2\<lparr>disk := to_filename_uint8 maskimg out_mask (disk st2)\<rparr>)))"

section \<open>SplitSeries\<close>

text \<open>The loop over \<^verbatim>\<open>enumerate(files_3d)\<close>.\<close>

definition append_out_file :: "path \<Rightarrow> (string \<rightharpoonup> res) \<Rightarrow> (string \<rightharpoonup> res)" where
  "append_out_file f r =
     (case r ''out_files'' of
        Some (Multi fs) \<Rightarrow> r(''out_files'' \<mapsto> Multi (fs @ [f]))
      | _ \<Rightarrow> r)"

fun write_frames :: "path \<Rightarrow> nat \<Rightarrow> fval image list \<Rightarrow> state \<Rightarrow> outcome \<times> state" where
  "write_frames in_file i [] st = (Returned, st)"
| "write_frames in_file i (file_3d # rest) st =
     (case Path (fname_presuffix in_file (''_idx-'' @ fmt03 i) None) of
        Inl e \<Rightarrow> (Raised e, st)
      | Inr out_file \<Rightarrow>
          write_frames in_file (Suc i) rest
            (st\<lparr>disk := to_filename file_3d out_file (disk st),
                results := append_out_file out_file (results st)\<rparr>))"

definition SplitSeries_run_interface ::
  "path \<Rightarrow> bool \<Rightarrow> state \<Rightarrow> outcome \<times> state" where
  "SplitSeries_run_interface in_file accept_3D st =
     (case nb_load (disk st) in_file of
        Inl e \<Rightarrow> (Raised e, st)
      | Inr loaded \<Rightarrow>
     (let filenii = squeeze_image loaded;
          n = ndim (dataobj filenii)
      in
        if n \<noteq> 4 then
          (if accept_3D \<and> n = 3 then
             (case Path (fname_presuffix in_file ''_idx-000'' None) of
                Inl e \<Rightarrow> (Raised e, st)
              | Inr out_file \<Rightarrow>
                  (Returned,
                   st\<lparr>results := (results st)(''out_files'' \<mapsto> Single out_file),
                      disk := to_filename filenii out_file (disk st)\<rparr>))
           else (Raised (DimensionError n), st))
        else
     (case four_to_three filenii of
        Inl e \<Rightarrow> (Raised e, st)
      | Inr files_3d \<Rightarrow>
          write_frames in_file 0 files_3d
            (st\<lparr>results := (results st)(''out_files'' \<mapsto> Multi [])\<rparr>))))"

section \<open>MergeSeries\<close>

text \<open>
  The loop over \<^verbatim>\<open>self.inputs.in_files\<close>, which fills \<^verbatim>\<open>nii_list\<close>. \<open>frames_of\<close> is
  the body of the loop after the file is loaded: the images that one input adds to the
  list, or the error it raises.
\<close>

definition frames_of :: "bool \<Rightarrow> fval image \<Rightarrow> error + fval image list" where
  "frames_of allow_4D loaded =
     (let filenii = squeeze_image loaded in
      if ndim (dataobj filenii) = 3 then Inr [filenii]
      else if allow_4D \<and> ndim (dataobj filenii) = 4 then four_to_three filenii
      else Inl (DimensionError (ndim (dataobj filenii))))"

fun gather :: "bool \<Rightarrow> filesystem \<Rightarrow> path list \<Rightarrow> fval image list
    \<Rightarrow> error + fval image list" where
  "gather allow_4D d [] nii_list = Inr nii_list"
| "gather allow_4D d (f # fs) nii_list =
     (case nb_load d f of
        Inl e \<Rightarrow> Inl e
      | Inr loaded \<Rightarrow>
          (case frames_of allow_4D loaded of
             Inl e \<Rightarrow> Inl e
           | Inr frames \<Rightarrow> gather allow_4D d fs (nii_list @ frames)))"

definition MergeSeries_run_interface ::
  "path list \<Rightarrow> bool \<Rightarrow> state \<Rightarrow> outcome \<times> state" where
  "MergeSeries_run_interface in_files allow_4D st =
     (case gather allow_4D (disk st) in_files [] of
        Inl e \<Rightarrow> (Raised e, st)
      | Inr nii_list \<Rightarrow>
     (case concat_images nii_list of
        Inl e \<Rightarrow> (Raised e, st)
      | Inr img_4d \<Rightarrow>
     (case in_files of
        [] \<Rightarrow> (Raised IndexError, st)
      | f0 # fs \<Rightarrow>
          (let out_file = fname_presuffix f0 ''_merged'' None in
           (Returned,
            st\<lparr>disk := to_filename img_4d out_file (disk st),
               results := (results st)(''out_file'' \<mapsto> Single out_file)\<rparr>)))))"

section \<open>A series, in the words of the specification\<close>

text \<open>
  The words of the specification for a series, to compare the code with. A frame is the
  slice \<open>k\<close> of a series when it has the first axes of the series, its affine and its
  header, and its voxel at each index is that of the series at the index followed by
  \<open>k\<close>. The frames of an input are the input itself when it is 3-D after squeezing, and
  its slices in the order of its fourth axis when it is 4-D. An array is the stack of a
  list of frames when it has their shape followed by their number and its voxel at an
  index followed by \<open>k\<close> is the voxel of frame \<open>k\<close> at that index.
\<close>

definition is_slice :: "'a image \<Rightarrow> nat \<Rightarrow> 'a image \<Rightarrow> bool" where
  "is_slice series k frame =
     (shape (dataobj frame) = butlast (shape (dataobj series)) \<and>
      affine frame = affine series \<and> header frame = header series \<and>
      list_all (\<lambda>idx. getitem (dataobj frame) idx = getitem (dataobj series) (idx @ [k]))
        (ndindex (butlast (shape (dataobj series)))))"

definition input_frames :: "'a image \<Rightarrow> 'a image list \<Rightarrow> bool" where
  "input_frames loaded frames =
     (let squeezed = squeeze_image loaded in
      if ndim (dataobj squeezed) = 3 then frames = [squeezed]
      else ndim (dataobj squeezed) = 4 \<and>
           length frames = last (shape (dataobj squeezed)) \<and>
           list_all (\<lambda>k. is_slice squeezed k (frames ! k)) [0..<length frames])"

definition is_stack :: "'a image list \<Rightarrow> 'a ndarray \<Rightarrow> bool" where
  "is_stack frames out =
     (shape out = shape (dataobj (hd frames)) @ [length frames] \<and>
      list_all (\<lambda>k. list_all (\<lambda>idx. getitem out (idx @ [k]) = getitem (dataobj (frames ! k)) idx)
                         (ndindex (shape (dataobj (hd frames)))))
        [0..<length frames])"

section \<open>Example inputs\<close>

text \<open>
  Three affines: the identity, the identity with a translation of 1 (not close to it),
  and the identity with a translation of 1e-12 (close to it, not equal to it).
\<close>

definition ex_affine :: "real list" where
  "ex_affine = [1, 0, 0, 0, 0, 1, 0, 0, 0, 0, 1, 0, 0, 0, 0, 1]"

definition ex_shifted :: "real list" where
  "ex_shifted = [1, 0, 0, 1, 0, 1, 0, 0, 0, 0, 1, 0, 0, 0, 0, 1]"

definition ex_nudged :: "real list" where
  "ex_nudged = [1, 0, 0, 1 / 10 ^ 12, 0, 1, 0, 0, 0, 0, 1, 0, 0, 0, 0, 1]"

definition ex_file :: "nat list \<Rightarrow> fval list \<Rightarrow> real list \<Rightarrow> nifti_file" where
  "ex_file sh es aff =
     \<lparr>f_dataobj = \<lparr>shape = sh, elems = es\<rparr>,
      f_header = \<lparr>data_dtype = float32, best_affine = aff, hdr_fields = ''''\<rparr>\<rparr>"

definition ex_path :: "string \<Rightarrow> path" where
  "ex_path name = \<lparr>dirname = ''/data'', stem = name, ext = ''.nii''\<rparr>"

definition ex_state :: "(path \<times> nifti_file) list \<Rightarrow> state" where
  "ex_state files = \<lparr>results = Map.empty, disk = map_of files\<rparr>"

text \<open>Files for the runs that fail, and a series of three volumes of one geometry.\<close>

definition ex_disk :: state where
  "ex_disk = ex_state [(ex_path ''t1'', ex_file [1, 1, 2] [Num 1, Num 2] ex_affine),
                       (ex_path ''t2'', ex_file [1, 1, 2] [Num 3, Num 4] ex_shifted),
                       (ex_path ''small'', ex_file [1, 1, 1] [Num 1] ex_affine)]"

definition ex_series :: state where
  "ex_series = ex_state [(ex_path ''a'', ex_file [1, 1, 2] [Num 1, Num 2] ex_affine),
                         (ex_path ''b'', ex_file [1, 1, 2] [Num 3, Num 4] ex_affine),
                         (ex_path ''c'', ex_file [1, 1, 2] [Num 5, Num 6] ex_affine)]"

text \<open>Files for masking: a series, a map with a NaN voxel, a mask and a four-axis mask.\<close>

definition ex_masking :: state where
  "ex_masking = ex_state
     [(ex_path ''bold'', ex_file [1, 1, 2, 2] [Num 1, Num 2, Num 3, Num 4] ex_affine),
      (ex_path ''stat'', ex_file [1, 1, 2] [Num 1, NaN] ex_affine),
      (ex_path ''mask'', ex_file [1, 1, 2] [Num 1, Num 0] ex_nudged),
      (ex_path ''mask4'', ex_file [1, 1, 2, 2] [Num 1, Num 1, Num 0, Num 0] ex_affine)]"

section \<open>Loading\<close>

lemma nb_load_Some:
  "d f = Some file \<Longrightarrow>
   nb_load d f = Inr \<lparr>dataobj = f_dataobj file, affine = Some (best_affine (f_header file)),
                       header = f_header file\<rparr>"
  by (simp add: nb_load_def)

section \<open>ApplyMask: the mask has at most three axes\<close>

text \<open>
  Claim C10. The shape test of \<^verbatim>\<open>ApplyMask\<close> compares the first three axes of the image
  with the whole shape of the mask. A mask with four axes therefore never passes it:
  whatever the image, the threshold and the affines are, the interface raises the error
  "Image and mask sizes do not match", also when the first three axes of the mask are
  those of the image.
\<close>

theorem ApplyMask_mask_4D:
  assumes "disk st in_file = Some fi" and "disk st in_mask = Some fm"
    and "ndim (f_dataobj fm) = 4"
  shows "fst (ApplyMask_run_interface in_file in_mask threshold cwd st) = Raised ShapeMismatch"
proof -
  have "length (shape (greater_than (f_dataobj fm) threshold)) = 4"
    using assms(3) by (simp add: greater_than_def ndim_def)
  moreover have "length (take 3 (shape (f_dataobj fi))) \<noteq> 4"
    by simp
  ultimately have
    "take 3 (shape (f_dataobj fi)) \<noteq> shape (greater_than (f_dataobj fm) threshold)"
    by metis
  then show ?thesis
    using assms(1,2)
    by (simp add: ApplyMask_run_interface_def nb_load_Some get_fdata_def Let_def)
qed

theorem ApplyMask_mask_4D_witness:
  "fst (ApplyMask_run_interface (ex_path ''img'') (ex_path ''mask'') (Num (1 / 2)) ''/work''
         (ex_state [(ex_path ''img'', ex_file [1, 1, 1, 2] [Num 1, Num 2] ex_affine),
                    (ex_path ''mask'', ex_file [1, 1, 1, 2] [Num 1, Num 0] ex_affine)]))
     = Raised ShapeMismatch"
  by (rule ApplyMask_mask_4D [where fi = "ex_file [1, 1, 1, 2] [Num 1, Num 2] ex_affine"
        and fm = "ex_file [1, 1, 1, 2] [Num 1, Num 0] ex_affine"])
     (simp_all add: ex_state_def ex_path_def ex_file_def ndim_def)

section \<open>ApplyMask: the two validation errors\<close>

lemma not_close_shifted: "\<not> allclose ex_affine ex_shifted"
  by (simp add: allclose_def ex_affine_def ex_shifted_def isclose_def)

text \<open>
  Claim C3, as stated, fails: it promises the affine error whenever the affines differ
  beyond the tolerance, also when the shapes match. Here image and mask have the same
  shape (1, 1, 1, 2), so their first three axes agree, and affines that are not close; the
  interface raises the size error, because the shape test comes first and compares the
  first three axes of the image with the whole shape of the mask.
\<close>

theorem ApplyMask_geometry_counterexample:
  "take 3 [1, 1, 1, 2] = take 3 [1, 1, 1, 2 :: nat] \<and> \<not> allclose ex_affine ex_shifted \<and>
   fst (ApplyMask_run_interface (ex_path ''img'') (ex_path ''mask'') (Num (1 / 2)) ''/work''
         (ex_state [(ex_path ''img'', ex_file [1, 1, 1, 2] [Num 1, Num 2] ex_affine),
                    (ex_path ''mask'', ex_file [1, 1, 1, 2] [Num 1, Num 0] ex_shifted)]))
     \<noteq> Raised GeometryMismatch"
  by (simp add: not_close_shifted ApplyMask_run_interface_def nb_load_def ex_state_def
      ex_path_def ex_file_def get_fdata_def greater_than_def Let_def)

text \<open>
  Claim C3, amended. Whatever the voxels and the threshold are: \<^verbatim>\<open>ApplyMask\<close> raises the
  size error whenever the first three axes of image and mask differ, and more generally
  whenever the first three axes of the image are not the whole shape of the mask; it
  raises the affine error whenever that shape test passes and the affines are not close
  (\<^verbatim>\<open>np.allclose\<close>).
\<close>

theorem ApplyMask_errors:
  assumes "disk st in_file = Some fi" and "disk st in_mask = Some fm"
  shows
   "(take 3 (shape (f_dataobj fi)) \<noteq> take 3 (shape (f_dataobj fm)) \<longrightarrow>
       fst (ApplyMask_run_interface in_file in_mask threshold cwd st) = Raised ShapeMismatch) \<and>
    (take 3 (shape (f_dataobj fi)) \<noteq> shape (f_dataobj fm) \<longrightarrow>
       fst (ApplyMask_run_interface in_file in_mask threshold cwd st) = Raised ShapeMismatch) \<and>
    (take 3 (shape (f_dataobj fi)) = shape (f_dataobj fm) \<and>
     \<not> allclose (best_affine (f_header fi)) (best_affine (f_header fm)) \<longrightarrow>
       fst (ApplyMask_run_interface in_file in_mask threshold cwd st) = Raised GeometryMismatch)"
proof -
  have run: "fst (ApplyMask_run_interface in_file in_mask threshold cwd st) =
      (if take 3 (shape (f_dataobj fi)) \<noteq> shape (f_dataobj fm) then Raised ShapeMismatch
       else if \<not> allclose (best_affine (f_header fi)) (best_affine (f_header fm))
         then Raised GeometryMismatch
       else fst (ApplyMask_run_interface in_file in_mask threshold cwd st))"
    using assms
    by (simp add: ApplyMask_run_interface_def nb_load_Some get_fdata_def Let_def
        greater_than_def)
  have "take 3 (shape (f_dataobj fi)) \<noteq> shape (f_dataobj fm)"
    if "take 3 (shape (f_dataobj fi)) \<noteq> take 3 (shape (f_dataobj fm))"
    using that by (metis take_take min.idem)
  with run show ?thesis
    by presburger
qed

theorem ApplyMask_errors_witness:
  "fst (ApplyMask_run_interface (ex_path ''img'') (ex_path ''mask'') (Num (1 / 2)) ''/work''
         (ex_state [(ex_path ''img'', ex_file [1, 1, 2] [Num 1, Num 2] ex_affine),
                    (ex_path ''mask'', ex_file [1, 1, 1] [Num 1] ex_affine)]))
     = Raised ShapeMismatch \<and>
   fst (ApplyMask_run_interface (ex_path ''img'') (ex_path ''mask'') (Num (1 / 2)) ''/work''
         (ex_state [(ex_path ''img'', ex_file [1, 1, 2] [Num 1, Num 2] ex_affine),
                    (ex_path ''mask'', ex_file [1, 1, 2] [Num 1, Num 0] ex_shifted)]))
     = Raised GeometryMismatch"
proof -
  have "fst (ApplyMask_run_interface (ex_path ''img'') (ex_path ''mask'') (Num (1 / 2)) ''/work''
         (ex_state [(ex_path ''img'', ex_file [1, 1, 2] [Num 1, Num 2] ex_affine),
                    (ex_path ''mask'', ex_file [1, 1, 1] [Num 1] ex_affine)]))
     = Raised ShapeMismatch"
    using ApplyMask_errors [of
        "ex_state [(ex_path ''img'', ex_file [1, 1, 2] [Num 1, Num 2] ex_affine),
                   (ex_path ''mask'', ex_file [1, 1, 1] [Num 1] ex_affine)]"
        "ex_path ''img''" "ex_file [1, 1, 2] [Num 1, Num 2] ex_affine"
        "ex_path ''mask''" "ex_file [1, 1, 1] [Num 1] ex_affine" "Num (1 / 2)" "''/work''"]
    by (simp add: ex_state_def ex_path_def ex_file_def)
  moreover have
    "fst (ApplyMask_run_interface (ex_path ''img'') (ex_path ''mask'') (Num (1 / 2)) ''/work''
         (ex_state [(ex_path ''img'', ex_file [1, 1, 2] [Num 1, Num 2] ex_affine),
                    (ex_path ''mask'', ex_file [1, 1, 2] [Num 1, Num 0] ex_shifted)]))
     = Raised GeometryMismatch"
    using ApplyMask_errors [of
        "ex_state [(ex_path ''img'', ex_file [1, 1, 2] [Num 1, Num 2] ex_affine),
                   (ex_path ''mask'', ex_file [1, 1, 2] [Num 1, Num 0] ex_shifted)]"
        "ex_path ''img''" "ex_file [1, 1, 2] [Num 1, Num 2] ex_affine"
        "ex_path ''mask''" "ex_file [1, 1, 2] [Num 1, Num 0] ex_shifted" "Num (1 / 2)" "''/work''"]
      not_close_shifted
    by (simp add: ex_state_def ex_path_def ex_file_def)
  ultimately show ?thesis by simp
qed

section \<open>Binarize\<close>

lemma isclose_refl: "isclose a a"
  by (simp add: isclose_def)

lemma allclose_refl: "allclose a a"
  by (simp add: allclose_def list_all2_refl isclose_refl)

lemma update_header_loaded:
  "affine img = Some (best_affine (header img)) \<Longrightarrow> update_header img = header img"
  by (simp add: update_header_def allclose_refl)

lemma map2_map_same: "map2 f xs (map g xs) = map (\<lambda>x. f x (g x)) xs"
  by (induction xs) simp_all

lemma presuffix_masked_neq_mask:
  "fname_presuffix f ''_masked'' p \<noteq> fname_presuffix f ''_mask'' p"
  by (simp add: fname_presuffix_def)

text \<open>
  Claim C4. For every stored image and every threshold (NaN and the infinities included),
  \<^verbatim>\<open>Binarize\<close> returns without any validation and writes two files. The mask file has
  the shape of the image, the 8-bit value 1 where the voxel is greater than the threshold
  and 0 elsewhere, and the header of the image with its data type set to \<^verbatim>\<open>uint8\<close>, so
  the same affine. The masked file has the voxel where it is greater than the threshold
  and 0 elsewhere, and the header of the image unchanged, data type and affine included.
\<close>

theorem Binarize_outputs:
  assumes "disk st in_file = Some f"
  shows "fst (Binarize_run_interface in_file t cwd st) = Returned \<and>
    disk (snd (Binarize_run_interface in_file t cwd st))
        (fname_presuffix in_file ''_mask'' (Some cwd)) =
      Some \<lparr>f_dataobj = uint8_values
                \<lparr>shape = shape (f_dataobj f),
                 elems = map (\<lambda>x. if greater x t then 1 else 0) (elems (f_dataobj f))\<rparr>,
             f_header = (f_header f)\<lparr>data_dtype := uint8\<rparr>\<rparr> \<and>
    disk (snd (Binarize_run_interface in_file t cwd st))
        (fname_presuffix in_file ''_masked'' (Some cwd)) =
      Some \<lparr>f_dataobj =
                \<lparr>shape = shape (f_dataobj f),
                 elems = map (\<lambda>x. if greater x t then x else Num 0) (elems (f_dataobj f))\<rparr>,
             f_header = f_header f\<rparr>"
  using assms presuffix_masked_neq_mask [of in_file "Some cwd"]
  by (simp add: Binarize_run_interface_def nb_load_Some Let_def get_fdata_def
      to_filename_def to_filename_uint8_def new_image_def update_header_loaded
      greater_than_def zero_outside_def astype_uint8_def map2_map_same o_def)

theorem Binarize_outputs_witness:
  "disk (ex_state [(ex_path ''t1'', ex_file [1, 1, 2] [Num 3, NaN] ex_affine)]) (ex_path ''t1'')
     = Some (ex_file [1, 1, 2] [Num 3, NaN] ex_affine) \<and>
   disk (snd (Binarize_run_interface (ex_path ''t1'') (Num 1) ''/work''
          (ex_state [(ex_path ''t1'', ex_file [1, 1, 2] [Num 3, NaN] ex_affine)])))
        (fname_presuffix (ex_path ''t1'') ''_mask'' (Some ''/work''))
     = Some \<lparr>f_dataobj = \<lparr>shape = [1, 1, 2], elems = [Num 1, Num 0]\<rparr>,
             f_header = \<lparr>data_dtype = uint8, best_affine = ex_affine, hdr_fields = []\<rparr>\<rparr> \<and>
   disk (snd (Binarize_run_interface (ex_path ''t1'') (Num 1) ''/work''
          (ex_state [(ex_path ''t1'', ex_file [1, 1, 2] [Num 3, NaN] ex_affine)])))
        (fname_presuffix (ex_path ''t1'') ''_masked'' (Some ''/work''))
     = Some (ex_file [1, 1, 2] [Num 3, Num 0] ex_affine)"
  using Binarize_outputs [of "ex_state [(ex_path ''t1'', ex_file [1, 1, 2] [Num 3, NaN] ex_affine)]"
      "ex_path ''t1''" "ex_file [1, 1, 2] [Num 3, NaN] ex_affine" "Num 1" "''/work''"]
  by (simp add: ex_state_def ex_file_def uint8_values_def)

section \<open>SplitSeries: the name \<^verbatim>\<open>Path\<close>\<close>

text \<open>
  Both branches of \<^verbatim>\<open>SplitSeries\<close> that write a file build its name with \<^verbatim>\<open>Path\<close>,
  which the module does not import. So the interface writes nothing, whatever its input.
\<close>

lemma write_frames_disk: "disk (snd (write_frames in_file i fs st)) = disk st"
  by (cases fs) (simp_all add: Path_def)

lemma SplitSeries_disk: "disk (snd (SplitSeries_run_interface in_file accept_3D st)) = disk st"
  by (simp add: SplitSeries_run_interface_def Let_def Path_def write_frames_disk
      split: sum.splits)

lemma SplitSeries_3D_rejected:
  assumes "disk st in_file = Some f" and "length (squeeze_shape (shape (f_dataobj f))) = 3"
  shows "fst (SplitSeries_run_interface in_file False st) = Raised (DimensionError 3)"
  using assms
  by (simp add: SplitSeries_run_interface_def nb_load_Some squeeze_image_def new_image_def
      ndim_def Let_def)

lemma SplitSeries_3D_accepted:
  assumes "disk st in_file = Some f" and "length (squeeze_shape (shape (f_dataobj f))) = 3"
  shows "fst (SplitSeries_run_interface in_file True st) = Raised (NameError ''Path'')"
  using assms
  by (simp add: SplitSeries_run_interface_def nb_load_Some squeeze_image_def new_image_def
      ndim_def Let_def Path_def)

lemma SplitSeries_other_dimension:
  assumes "disk st in_file = Some f" and "length (squeeze_shape (shape (f_dataobj f))) = n"
    and "n \<noteq> 3" and "n \<noteq> 4"
  shows "fst (SplitSeries_run_interface in_file accept_3D st) = Raised (DimensionError n)"
  using assms
  by (simp add: SplitSeries_run_interface_def nb_load_Some squeeze_image_def new_image_def
      ndim_def Let_def)

lemma SplitSeries_4D:
  assumes "disk st in_file = Some f" and "length (squeeze_shape (shape (f_dataobj f))) = 4"
    and "0 < last (squeeze_shape (shape (f_dataobj f)))"
  shows "fst (SplitSeries_run_interface in_file accept_3D st) = Raised (NameError ''Path'')"
  using assms
  by (simp add: SplitSeries_run_interface_def nb_load_Some squeeze_image_def new_image_def
      ndim_def Let_def four_to_three_def Path_def upt_conv_Cons)

text \<open>
  Claim C5 asks that a four-dimensional input is cut into its volumes, written under the
  indices 000, 001, ... The code does not get there: for the input of shape (1, 1, 1, 2)
  the first pass of the loop reads \<^verbatim>\<open>Path\<close> and raises \<^verbatim>\<open>NameError\<close>.
\<close>

theorem SplitSeries_4D_NameError:
  "fst (SplitSeries_run_interface (ex_path ''bold'') False
         (ex_state [(ex_path ''bold'', ex_file [1, 1, 1, 2] [Num 1, Num 2] ex_affine)]))
     = Raised (NameError ''Path'')"
  by (simp add: SplitSeries_run_interface_def nb_load_def ex_state_def ex_file_def
      squeeze_image_def squeeze_shape_def new_image_def ndim_def four_to_three_def Let_def
      Path_def upt_rec)

text \<open>
  Claim C6 asks that a three-dimensional input with \<^verbatim>\<open>accept_3D\<close> set comes back as one
  volume under the index 000. The code raises \<^verbatim>\<open>NameError\<close> instead, for the same
  reason. The two other parts of the claim hold (\<open>SplitSeries_3D_rejected\<close>,
  \<open>SplitSeries_other_dimension\<close>).
\<close>

theorem SplitSeries_3D_NameError:
  "fst (SplitSeries_run_interface (ex_path ''t1'') True
         (ex_state [(ex_path ''t1'', ex_file [1, 1, 2] [Num 1, Num 2] ex_affine)]))
     = Raised (NameError ''Path'')"
  by (simp add: SplitSeries_run_interface_def nb_load_def ex_state_def ex_file_def
      squeeze_image_def squeeze_shape_def new_image_def ndim_def Let_def Path_def)

text \<open>
  Claim C1 asks that splitting the merge of three volumes gives the three volumes back.
  The merge of the three volumes of \<open>ex_series\<close> returns and writes the series of shape
  (1, 1, 2, 3); splitting that file raises \<^verbatim>\<open>NameError\<close>, again for the same reason.
\<close>

theorem merge_then_split_NameError:
  "fst (MergeSeries_run_interface [ex_path ''a'', ex_path ''b'', ex_path ''c''] True ex_series)
     = Returned \<and>
   disk (snd (MergeSeries_run_interface [ex_path ''a'', ex_path ''b'', ex_path ''c''] True
          ex_series)) (fname_presuffix (ex_path ''a'') ''_merged'' None)
     = Some (ex_file [1, 1, 2, 3] [Num 1, Num 3, Num 5, Num 2, Num 4, Num 6] ex_affine) \<and>
   fst (SplitSeries_run_interface (fname_presuffix (ex_path ''a'') ''_merged'' None) False
         (snd (MergeSeries_run_interface [ex_path ''a'', ex_path ''b'', ex_path ''c''] True
            ex_series)))
     = Raised (NameError ''Path'')"
  by (simp add: MergeSeries_run_interface_def SplitSeries_run_interface_def nb_load_def
      ex_series_def ex_state_def ex_path_def ex_file_def squeeze_image_def squeeze_shape_def
      new_image_def ndim_def Let_def concat_images_def stack_last_def to_filename_def frames_of_def
      update_header_def allclose_refl fname_presuffix_def four_to_three_def Path_def upt_rec)

section \<open>No file is written by a run that fails\<close>

text \<open>
  Claim C9. In each of the four interfaces every error is raised before the first call of
  \<^verbatim>\<open>to_filename\<close>: when a run ends with an error, the files are those from before the
  run. (The \<^verbatim>\<open>_results\<close> dictionary is another matter: \<^verbatim>\<open>ApplyMask\<close> stores the output
  name in it before it validates.)
\<close>

theorem failure_leaves_files:
  "(fst (ApplyMask_run_interface in_file in_mask threshold cwd st) = Raised e1 \<longrightarrow>
      disk (snd (ApplyMask_run_interface in_file in_mask threshold cwd st)) = disk st) \<and>
   (fst (Binarize_run_interface in_file thresh_low cwd st) = Raised e2 \<longrightarrow>
      disk (snd (Binarize_run_interface in_file thresh_low cwd st)) = disk st) \<and>
   (fst (SplitSeries_run_interface in_file accept_3D st) = Raised e3 \<longrightarrow>
      disk (snd (SplitSeries_run_interface in_file accept_3D st)) = disk st) \<and>
   (fst (MergeSeries_run_interface in_files allow_4D st) = Raised e4 \<longrightarrow>
      disk (snd (MergeSeries_run_interface in_files allow_4D st)) = disk st)"
proof (intro conjI impI)
  assume "fst (ApplyMask_run_interface in_file in_mask threshold cwd st) = Raised e1"
  then show "disk (snd (ApplyMask_run_interface in_file in_mask threshold cwd st)) = disk st"
    by (auto simp: ApplyMask_run_interface_def Let_def
        split: sum.splits option.splits if_splits prod.splits)
next
  assume "fst (Binarize_run_interface in_file thresh_low cwd st) = Raised e2"
  then show "disk (snd (Binarize_run_interface in_file thresh_low cwd st)) = disk st"
    by (auto simp: Binarize_run_interface_def Let_def split: sum.splits)
next
  show "disk (snd (SplitSeries_run_interface in_file accept_3D st)) = disk st"
    by (rule SplitSeries_disk)
next
  assume "fst (MergeSeries_run_interface in_files allow_4D st) = Raised e4"
  then show "disk (snd (MergeSeries_run_interface in_files allow_4D st)) = disk st"
    by (auto simp: MergeSeries_run_interface_def Let_def split: sum.splits list.splits)
qed

theorem failure_leaves_files_witness:
  "fst (ApplyMask_run_interface (ex_path ''t1'') (ex_path ''small'') (Num (1 / 2)) ''/work'' ex_disk)
     = Raised ShapeMismatch \<and>
   disk (snd (ApplyMask_run_interface (ex_path ''t1'') (ex_path ''small'') (Num (1 / 2)) ''/work''
     ex_disk)) = disk ex_disk \<and>
   fst (Binarize_run_interface (ex_path ''absent'') (Num 0) ''/work'' ex_disk)
     = Raised FileNotFoundError \<and>
   disk (snd (Binarize_run_interface (ex_path ''absent'') (Num 0) ''/work'' ex_disk))
     = disk ex_disk \<and>
   fst (SplitSeries_run_interface (ex_path ''t1'') False ex_disk) = Raised (DimensionError 3) \<and>
   disk (snd (SplitSeries_run_interface (ex_path ''t1'') False ex_disk)) = disk ex_disk \<and>
   fst (MergeSeries_run_interface [ex_path ''t1'', ex_path ''t2''] True ex_disk)
     = Raised GeometryMismatch \<and>
   disk (snd (MergeSeries_run_interface [ex_path ''t1'', ex_path ''t2''] True ex_disk))
     = disk ex_disk"
proof -
  have a: "fst (ApplyMask_run_interface (ex_path ''t1'') (ex_path ''small'') (Num (1 / 2))
      ''/work'' ex_disk) = Raised ShapeMismatch"
    by (simp add: ApplyMask_run_interface_def nb_load_def ex_disk_def ex_state_def ex_path_def
        ex_file_def get_fdata_def greater_than_def Let_def)
  have b: "fst (Binarize_run_interface (ex_path ''absent'') (Num 0) ''/work'' ex_disk)
      = Raised FileNotFoundError"
    by (simp add: Binarize_run_interface_def nb_load_def ex_disk_def ex_state_def ex_path_def)
  have c: "fst (SplitSeries_run_interface (ex_path ''t1'') False ex_disk)
      = Raised (DimensionError 3)"
    by (simp add: SplitSeries_run_interface_def nb_load_def ex_disk_def ex_state_def
        ex_path_def ex_file_def squeeze_image_def squeeze_shape_def new_image_def ndim_def
        Let_def)
  have d: "fst (MergeSeries_run_interface [ex_path ''t1'', ex_path ''t2''] True ex_disk)
      = Raised GeometryMismatch"
    by (simp add: MergeSeries_run_interface_def nb_load_def ex_disk_def ex_state_def
        ex_path_def ex_file_def squeeze_image_def squeeze_shape_def new_image_def ndim_def
        Let_def concat_images_def ex_affine_def ex_shifted_def frames_of_def)
  show ?thesis
    using a b c d
      failure_leaves_files [of "ex_path ''t1''" "ex_path ''small''" "Num (1 / 2)" "''/work''"
        ex_disk ShapeMismatch "Num 0" FileNotFoundError False "DimensionError 3"
        "[ex_path ''t1'', ex_path ''t2'']" True GeometryMismatch]
      failure_leaves_files [of "ex_path ''absent''" "ex_path ''small''" "Num (1 / 2)" "''/work''"
        ex_disk ShapeMismatch "Num 0" FileNotFoundError False "DimensionError 3"
        "[ex_path ''t1'', ex_path ''t2'']" True GeometryMismatch]
    by simp
qed

section \<open>Indexing arrays\<close>

lemma offset_less:
  fixes i n r P :: nat
  assumes "i < n" and "r < P"
  shows "i * P + r < n * P"
proof -
  have "i * P + r < Suc i * P" using assms(2) by simp
  also have "Suc i * P \<le> n * P" using assms(1) by (intro mult_le_mono1) simp
  finally show ?thesis .
qed

lemma length_concat_uniform:
  assumes "\<And>j. j < n \<Longrightarrow> length (f j) = P"
  shows "length (concat (map f [0..<n])) = n * P"
  using assms by (induction n) simp_all

lemma nth_concat_uniform:
  assumes "\<And>j. j < n \<Longrightarrow> length (f j) = P" and "i < n" and "r < P"
  shows "concat (map f [0..<n]) ! (i * P + r) = f i ! r"
  using assms
proof (induction n)
  case 0
  then show ?case by simp
next
  case (Suc n)
  have len: "length (concat (map f [0..<n])) = n * P"
    using Suc.prems(1) by (simp add: length_concat_uniform)
  show ?case
  proof (cases "i < n")
    case True
    then have "i * P + r < n * P"
      using Suc.prems(3) by (rule offset_less)
    then show ?thesis
      using Suc True len by (simp add: nth_append)
  next
    case False
    then have "i = n" using Suc.prems(2) by simp
    then show ?thesis
      using len Suc.prems(1) by (simp add: nth_append)
  qed
qed

lemma ravel_less: "valid_index s idx \<Longrightarrow> ravel s idx < prod_list s"
  unfolding valid_index_def
  by (induction idx s rule: list_all2_induct) (simp_all add: offset_less)

lemma ravel_snoc:
  "length idx = length s \<Longrightarrow> ravel (s @ [n]) (idx @ [k]) = ravel s idx * n + k"
  by (induction idx s rule: list_induct2) (simp_all add: algebra_simps)

lemma length_ndindex: "length (ndindex s) = prod_list s"
  unfolding ndindex_def
  by (induction s) (simp_all add: length_concat_uniform)

lemma ndindex_nth: "valid_index s idx \<Longrightarrow> ndindex s ! ravel s idx = idx"
  unfolding valid_index_def
proof (induction idx s rule: list_all2_induct)
  case Nil
  then show ?case by (simp add: ndindex_def)
next
  case (Cons i idx n s)
  have r: "ravel s idx < prod_list s"
    using Cons.hyps(2) by (simp add: ravel_less valid_index_def)
  have "ndindex (n # s) ! (i * prod_list s + ravel s idx)
      = map ((#) i) (ndindex s) ! ravel s idx"
    unfolding ndindex_def product_lists.simps list.map
    using Cons.hyps(1) r
    by (intro nth_concat_uniform) (simp_all add: length_ndindex [unfolded ndindex_def])
  then show ?case
    using Cons.IH r by (simp add: length_ndindex)
qed

lemma getitem_map_ndindex:
  "valid_index s idx \<Longrightarrow> getitem \<lparr>shape = s, elems = map F (ndindex s)\<rparr> idx = F idx"
  by (simp add: getitem_def ravel_less length_ndindex ndindex_nth)

lemma valid_index_length: "valid_index s idx \<Longrightarrow> length idx = length s"
  by (simp add: valid_index_def list_all2_lengthD)

lemma getitem_last_axis_slice:
  assumes "valid_index (butlast (shape arr)) idx" and "shape arr \<noteq> []"
  shows "getitem (last_axis_slice arr k) idx = getitem arr (idx @ [k])"
proof -
  have "shape arr = butlast (shape arr) @ [last (shape arr)]"
    using assms(2) by simp
  then have "ravel (shape arr) (idx @ [k])
      = ravel (butlast (shape arr)) idx * last (shape arr) + k"
    using ravel_snoc [of idx "butlast (shape arr)" "last (shape arr)" k]
      valid_index_length [OF assms(1)] by simp
  then show ?thesis
    using ravel_less [OF assms(1)] by (simp add: getitem_def last_axis_slice_def)
qed

lemma getitem_stack_last:
  assumes "valid_index s idx" and "k < length arrs" and "shape (arrs ! k) = s"
  shows "getitem (stack_last s arrs) (idx @ [k]) = getitem (arrs ! k) idx"
proof -
  have "concat (map (\<lambda>p. map (\<lambda>a. elems a ! p) arrs) [0..<prod_list s])
          ! (ravel s idx * length arrs + k)
        = map (\<lambda>a. elems a ! ravel s idx) arrs ! k"
    using ravel_less [OF assms(1)] assms(2) by (intro nth_concat_uniform) simp_all
  then show ?thesis
    using assms valid_index_length [OF assms(1)]
    by (simp add: getitem_def stack_last_def ravel_snoc)
qed


section \<open>ApplyMask: the masked image\<close>

lemma broadcast_rev_same: "broadcast_rev xs xs = Some xs"
  by (induction xs) simp_all

lemma broadcast_shapes_same: "broadcast_shapes s s = Some s"
  by (simp add: broadcast_shapes_def broadcast_rev_same)

lemma broadcast_shapes_newaxis:
  "broadcast_shapes (s @ [t]) (s @ [Suc 0]) = Some (s @ [t])"
  by (simp add: broadcast_shapes_def broadcast_rev_same)

lemma bcast_index_same: "valid_index s idx \<Longrightarrow> bcast_index s idx = idx"
proof -
  assume v: "valid_index s idx"
  then have "map2 (\<lambda>d i. if d = 1 then 0 else i) s idx = idx"
    unfolding valid_index_def
    by (induction idx s rule: list_all2_induct) auto
  then show ?thesis
    using valid_index_length [OF v] by (simp add: bcast_index_def)
qed

lemma bcast_index_newaxis:
  assumes "valid_index s idx"
  shows "bcast_index (s @ [Suc 0]) (idx @ [l]) = idx @ [0]"
  using bcast_index_same [OF assms] valid_index_length [OF assms]
  by (simp add: bcast_index_def)

lemma valid_index_snocI:
  "valid_index s idx \<Longrightarrow> l < t \<Longrightarrow> valid_index (s @ [t]) (idx @ [l])"
  by (simp add: valid_index_def list_all2_appendI)

lemma valid_index_snocE:
  "valid_index (s @ [t]) idx \<Longrightarrow> \<exists>idx3 l. idx = idx3 @ [l] \<and> valid_index s idx3 \<and> l < t"
  by (auto simp: valid_index_def list_all2_append2 list_all2_Cons2)

lemma times_bool_if:
  "times_bool x b = (if b then x else if isfinite x then Num 0 else NaN)"
  by (cases x; cases b) simp_all

lemma getitem_greater_than:
  assumes "wf_array a" and "valid_index (shape a) idx"
  shows "getitem (greater_than a t) idx = greater (getitem a idx) t"
  using assms ravel_less [OF assms(2)]
  by (simp add: getitem_def greater_than_def wf_array_def)

lemma multiply_same_shape:
  assumes "shape m = shape a"
  shows "\<exists>out. multiply a m = Inr out \<and> shape out = shape a \<and>
    (\<forall>idx. valid_index (shape a) idx \<longrightarrow>
       getitem out idx = times_bool (getitem a idx) (getitem m idx))"
  using assms
  by (simp add: multiply_def broadcast_shapes_same getitem_map_ndindex bcast_index_same)

lemma getitem_newaxis:
  "valid_index (shape m) idx \<Longrightarrow> getitem (newaxis m) (idx @ [0]) = getitem m idx"
  using valid_index_length [of "shape m" idx]
  by (simp add: getitem_def newaxis_def ravel_snoc)

lemma multiply_newaxis:
  assumes "shape a = shape m @ [t]"
  shows "\<exists>out. multiply a (newaxis m) = Inr out \<and> shape out = shape a \<and>
    (\<forall>idx l. valid_index (shape m) idx \<and> l < t \<longrightarrow>
       getitem out (idx @ [l]) = times_bool (getitem a (idx @ [l])) (getitem m idx))"
proof -
  have sh: "shape (newaxis m) = shape m @ [Suc 0]"
    by (simp add: newaxis_def)
  show ?thesis
    using assms
    by (simp add: multiply_def sh broadcast_shapes_newaxis getitem_map_ndindex
        valid_index_snocI bcast_index_same bcast_index_newaxis getitem_newaxis)
qed


lemma ApplyMask_run:
  assumes "disk st in_file = Some fi" and "disk st in_mask = Some fm"
    and "take 3 (shape (f_dataobj fi)) = shape (f_dataobj fm)"
    and "allclose (best_affine (f_header fi)) (best_affine (f_header fm))"
    and "multiply (f_dataobj fi)
           (if ndim (f_dataobj fi) = ndim (f_dataobj fm) + 1
            then newaxis (greater_than (f_dataobj fm) t) else greater_than (f_dataobj fm) t)
         = Inr product"
  shows "fst (ApplyMask_run_interface in_file in_mask t cwd st) = Returned \<and>
    disk (snd (ApplyMask_run_interface in_file in_mask t cwd st))
        (fname_presuffix in_file ''_masked'' (Some cwd))
      = Some \<lparr>f_dataobj = product, f_header = f_header fi\<rparr>"
proof -
  have sh: "shape (greater_than (f_dataobj fm) t) = shape (f_dataobj fm)"
    by (simp add: greater_than_def)
  have nd: "ndim (greater_than (f_dataobj fm) t) = ndim (f_dataobj fm)"
    by (simp add: ndim_def sh)
  show ?thesis
    using assms
    by (simp add: ApplyMask_run_interface_def nb_load_Some get_fdata_def Let_def sh nd
        to_filename_def update_header_def new_image_def)
qed

lemma shape_4D_split: "length s = 4 \<Longrightarrow> s = take 3 s @ [last s]"
proof -
  assume l: "length s = 4"
  then have "s \<noteq> []" by auto
  then have "s = butlast s @ [last s]" by simp
  moreover have "butlast s = take 3 s" using l by (simp add: butlast_conv_take)
  ultimately show ?thesis by simp
qed

text \<open>
  Claim C2, amended. Let the first three axes of the image be the whole shape of the mask
  (so the mask has at most three axes), the affines be close, and the image have at most
  four axes. Then \<^verbatim>\<open>ApplyMask\<close> returns and writes one file, with the header of the image
  (its affine included) and the shape of the image. Each voxel of it is the voxel of the
  image where the mask, read at the first three indices, is greater than the threshold;
  elsewhere it is the product of the voxel with 0: 0 for a finite voxel, NaN for an
  infinite one and for NaN.
\<close>

theorem ApplyMask_output:
  assumes "disk st in_file = Some fi" and "disk st in_mask = Some fm"
    and "take 3 (shape (f_dataobj fi)) = shape (f_dataobj fm)"
    and "allclose (best_affine (f_header fi)) (best_affine (f_header fm))"
    and "ndim (f_dataobj fi) \<le> 4"
    and "wf_array (f_dataobj fm)"
  shows "fst (ApplyMask_run_interface in_file in_mask t cwd st) = Returned \<and>
    (\<exists>out. disk (snd (ApplyMask_run_interface in_file in_mask t cwd st))
              (fname_presuffix in_file ''_masked'' (Some cwd)) = Some out \<and>
       f_header out = f_header fi \<and>
       shape (f_dataobj out) = shape (f_dataobj fi) \<and>
       (\<forall>idx. valid_index (shape (f_dataobj fi)) idx \<longrightarrow>
          getitem (f_dataobj out) idx =
            (if greater (getitem (f_dataobj fm) (take 3 idx)) t then getitem (f_dataobj fi) idx
             else if isfinite (getitem (f_dataobj fi) idx) then Num 0 else NaN)))"
proof -
  let ?img = "f_dataobj fi" and ?mdata = "f_dataobj fm"
  let ?msk = "greater_than ?mdata t"
  let ?msk1 = "if ndim ?img = ndim ?mdata + 1 then newaxis ?msk else ?msk"
  have shm: "shape ?msk = shape ?mdata"
    by (simp add: greater_than_def)
  have "\<exists>product. multiply ?img ?msk1 = Inr product \<and> shape product = shape ?img \<and>
      (\<forall>idx. valid_index (shape ?img) idx \<longrightarrow>
         getitem product idx =
           times_bool (getitem ?img idx) (greater (getitem ?mdata (take 3 idx)) t))"
  proof (cases "ndim ?img = 4")
    case True
    have "shape ?img = take 3 (shape ?img) @ [last (shape ?img)]"
      using True by (intro shape_4D_split) (simp add: ndim_def)
    then have s: "shape ?img = shape ?msk @ [last (shape ?img)]"
      by (simp only: assms(3) shm)
    have "length (shape ?mdata) = length (take 3 (shape ?img))"
      by (simp only: assms(3))
    then have l3: "length (shape ?mdata) = 3"
      using True by (simp add: ndim_def)
    have n: "ndim ?img = ndim ?mdata + 1"
      using True l3 by (simp add: ndim_def)
    from multiply_newaxis [OF s] obtain product where
      p: "multiply ?img (newaxis ?msk) = Inr product" "shape product = shape ?img"
        "\<And>idx l. valid_index (shape ?msk) idx \<Longrightarrow> l < last (shape ?img) \<Longrightarrow>
           getitem product (idx @ [l]) = times_bool (getitem ?img (idx @ [l])) (getitem ?msk idx)"
      by blast
    have "getitem product idx
        = times_bool (getitem ?img idx) (greater (getitem ?mdata (take 3 idx)) t)"
      if v: "valid_index (shape ?img) idx" for idx
    proof -
      from v s obtain idx3 l where
        i: "idx = idx3 @ [l]" "valid_index (shape ?msk) idx3" "l < last (shape ?img)"
        using valid_index_snocE [of "shape ?msk" "last (shape ?img)" idx] by auto
      have "length idx3 = 3"
        using valid_index_length [OF i(2)] l3 by (simp add: shm)
      then have "take 3 idx = idx3"
        using i(1) by simp
      then show ?thesis
        using p(3) [OF i(2,3)] i(1,2) getitem_greater_than [OF assms(6), of idx3 t]
        by (simp add: shm)
    qed
    then show ?thesis
      using p(1,2) n by auto
  next
    case False
    then have l3: "length (shape ?img) \<le> 3"
      using assms(5) by (simp add: ndim_def)
    then have "take 3 (shape ?img) = shape ?img"
      by simp
    then have s: "shape ?msk = shape ?img"
      by (simp only: shm flip: assms(3))
    have n: "ndim ?img \<noteq> ndim ?mdata + 1"
      using s by (simp add: ndim_def shm)
    from multiply_same_shape [OF s] obtain product where
      p: "multiply ?img ?msk = Inr product" "shape product = shape ?img"
        "\<And>idx. valid_index (shape ?img) idx \<Longrightarrow>
           getitem product idx = times_bool (getitem ?img idx) (getitem ?msk idx)"
      by blast
    have "getitem product idx
        = times_bool (getitem ?img idx) (greater (getitem ?mdata (take 3 idx)) t)"
      if v: "valid_index (shape ?img) idx" for idx
    proof -
      have "take 3 idx = idx"
        using valid_index_length [OF v] l3 by simp
      then show ?thesis
        using p(3) [OF v] v s getitem_greater_than [OF assms(6), of idx t]
        by (simp add: shm)
    qed
    then show ?thesis
      using p(1,2) n by auto
  qed
  then obtain product where
    p: "multiply ?img ?msk1 = Inr product" "shape product = shape ?img"
      "\<And>idx. valid_index (shape ?img) idx \<Longrightarrow>
         getitem product idx =
           times_bool (getitem ?img idx) (greater (getitem ?mdata (take 3 idx)) t)"
    by blast
  from ApplyMask_run [OF assms(1-4) p(1), of cwd] p(2,3)
  show ?thesis
    by (simp add: times_bool_if)
qed


lemma close_nudged: "allclose ex_affine ex_nudged"
  by (simp add: allclose_def ex_affine_def ex_nudged_def isclose_def)

text \<open>
  Claim C2, as stated, fails twice. A mask with the four axes of the image, so with the
  same first three axes, and with the same affine is refused with the size error, and
  nothing is written. And where the mask is not greater than the threshold, a voxel that
  is NaN stays NaN: the code multiplies, it does not assign 0.
\<close>

theorem ApplyMask_output_counterexample:
  "take 3 [1, 1, 2, 2] = take 3 [1, 1, 2, 2 :: nat] \<and> allclose ex_affine ex_affine \<and>
   fst (ApplyMask_run_interface (ex_path ''bold'') (ex_path ''mask4'') (Num (1 / 2)) ''/work''
         ex_masking) = Raised ShapeMismatch \<and>
   \<not> greater (Num 0) (Num (1 / 2)) \<and>
   map_option f_dataobj
     (disk (snd (ApplyMask_run_interface (ex_path ''stat'') (ex_path ''mask'') (Num (1 / 2))
                   ''/work'' ex_masking))
        (fname_presuffix (ex_path ''stat'') ''_masked'' (Some ''/work'')))
     = Some \<lparr>shape = [1, 1, 2], elems = [Num 1, NaN]\<rparr>"
  by (simp add: allclose_refl close_nudged ApplyMask_run_interface_def nb_load_def
      ex_masking_def ex_state_def ex_path_def ex_file_def get_fdata_def greater_than_def
      Let_def ndim_def multiply_def broadcast_shapes_def ndindex_def bcast_index_def
      getitem_def to_filename_def new_image_def fname_presuffix_def upt_rec)

theorem ApplyMask_output_witness:
  "fst (ApplyMask_run_interface (ex_path ''bold'') (ex_path ''mask'') (Num (1 / 2)) ''/work''
         ex_masking) = Returned \<and>
    (\<exists>out. disk (snd (ApplyMask_run_interface (ex_path ''bold'') (ex_path ''mask'') (Num (1 / 2))
                ''/work'' ex_masking))
              (fname_presuffix (ex_path ''bold'') ''_masked'' (Some ''/work'')) = Some out \<and>
       f_header out = f_header (ex_file [1, 1, 2, 2] [Num 1, Num 2, Num 3, Num 4] ex_affine) \<and>
       shape (f_dataobj out)
         = shape (f_dataobj (ex_file [1, 1, 2, 2] [Num 1, Num 2, Num 3, Num 4] ex_affine)) \<and>
       (\<forall>idx. valid_index
                (shape (f_dataobj (ex_file [1, 1, 2, 2] [Num 1, Num 2, Num 3, Num 4] ex_affine)))
                idx \<longrightarrow>
          getitem (f_dataobj out) idx =
            (if greater (getitem (f_dataobj (ex_file [1, 1, 2] [Num 1, Num 0] ex_nudged))
                           (take 3 idx)) (Num (1 / 2))
             then getitem (f_dataobj (ex_file [1, 1, 2, 2] [Num 1, Num 2, Num 3, Num 4] ex_affine))
                    idx
             else if isfinite
                  (getitem (f_dataobj (ex_file [1, 1, 2, 2] [Num 1, Num 2, Num 3, Num 4] ex_affine))
                     idx)
               then Num 0 else NaN)))"
  by (rule ApplyMask_output)
     (simp_all add: ex_masking_def ex_state_def ex_path_def ex_file_def close_nudged ndim_def
        wf_array_def)

text \<open>
  With five axes the mask is not given a new axis, and numpy aligns its three axes with
  the last three of the image: here the product raises numpy's broadcasting error.
\<close>

lemma ApplyMask_5D_BroadcastError:
  "fst (ApplyMask_run_interface (ex_path ''five'') (ex_path ''mask'') (Num (1 / 2)) ''/work''
         (ex_state
            [(ex_path ''five'',
              ex_file [1, 1, 2, 1, 3] [Num 1, Num 2, Num 3, Num 4, Num 5, Num 6] ex_affine),
             (ex_path ''mask'', ex_file [1, 1, 2] [Num 1, Num 0] ex_affine)]))
     = Raised BroadcastError"
  by (simp add: allclose_refl ApplyMask_run_interface_def nb_load_def
      ex_state_def ex_path_def ex_file_def get_fdata_def greater_than_def
      Let_def ndim_def multiply_def broadcast_shapes_def)

section \<open>MergeSeries: the frames and their order\<close>

lemma ndindex_valid: "idx \<in> set (ndindex s) \<Longrightarrow> valid_index s idx"
  by (simp add: ndindex_def valid_index_def product_lists_set list_all2_map2)

lemma frames_of_error: "frames_of allow_4D loaded = Inl e \<Longrightarrow> \<exists>n. e = DimensionError n"
  by (auto simp: frames_of_def Let_def four_to_three_def split: if_splits)

lemma frames_of_bad:
  assumes "n = ndim (dataobj (squeeze_image loaded))"
    and "(n = 4 \<and> \<not> allow_4D) \<or> (n \<noteq> 3 \<and> n \<noteq> 4)"
  shows "frames_of allow_4D loaded = Inl (DimensionError n)"
  using assms by (auto simp: frames_of_def Let_def)

lemma shape_last_axis_slice: "shape (last_axis_slice arr k) = butlast (shape arr)"
  by (simp add: last_axis_slice_def)

lemma is_slice_last_axis:
  assumes "shape (dataobj series) \<noteq> []"
  shows "is_slice series k (new_image (last_axis_slice (dataobj series) k) (affine series)
           (header series))"
  using assms
  by (auto simp: is_slice_def new_image_def list_all_iff getitem_last_axis_slice ndindex_valid
      shape_last_axis_slice)

lemma frames_of_input_frames:
  assumes "frames_of allow_4D loaded = Inr frames"
  shows "input_frames loaded frames"
proof (cases "ndim (dataobj (squeeze_image loaded)) = 3")
  case True
  then show ?thesis
    using assms by (simp add: frames_of_def input_frames_def Let_def)
next
  case False
  then have n4: "ndim (dataobj (squeeze_image loaded)) = 4"
    and fr: "four_to_three (squeeze_image loaded) = Inr frames"
    using assms by (auto simp: frames_of_def Let_def split: if_splits)
  let ?sq = "squeeze_image loaded"
  have ne: "shape (dataobj ?sq) \<noteq> []"
    using n4 by (auto simp: ndim_def)
  have frames: "frames = map (\<lambda>i. new_image (last_axis_slice (dataobj ?sq) i) (affine ?sq)
      (header ?sq)) [0..<last (shape (dataobj ?sq))]"
    using fr n4 by (simp add: four_to_three_def Let_def)
  show ?thesis
    using False n4 is_slice_last_axis [OF ne]
    by (simp add: input_frames_def Let_def frames list_all_iff)
qed

lemma frames_of_frame:
  assumes "frames_of allow_4D loaded = Inr frames" and "frame \<in> set frames"
  shows "ndim (dataobj frame) = 3 \<and> affine frame = affine loaded \<and> header frame = header loaded"
proof (cases "ndim (dataobj (squeeze_image loaded)) = 3")
  case True
  then show ?thesis
    using assms by (auto simp: frames_of_def Let_def squeeze_image_def new_image_def)
next
  case False
  then have n4: "ndim (dataobj (squeeze_image loaded)) = 4"
    and fr: "four_to_three (squeeze_image loaded) = Inr frames"
    using assms by (auto simp: frames_of_def Let_def split: if_splits)
  then show ?thesis
    using assms(2)
    by (auto simp: four_to_three_def Let_def new_image_def last_axis_slice_def ndim_def
        squeeze_image_def)
qed

lemma gather_Inr:
  "gather allow_4D d fs acc = Inr r \<Longrightarrow>
   \<exists>fss. list_all2 (\<lambda>f frames. \<exists>loaded. nb_load d f = Inr loaded
                       \<and> frames_of allow_4D loaded = Inr frames) fs fss
         \<and> r = acc @ concat fss"
proof (induction fs arbitrary: acc)
  case Nil
  then show ?case by simp
next
  case (Cons f fs)
  from Cons.prems obtain loaded frames where
    l: "nb_load d f = Inr loaded" "frames_of allow_4D loaded = Inr frames"
      "gather allow_4D d fs (acc @ frames) = Inr r"
    by (auto split: sum.splits)
  from Cons.IH [OF l(3)] obtain fss where
    "list_all2 (\<lambda>f frames. \<exists>loaded. nb_load d f = Inr loaded
                       \<and> frames_of allow_4D loaded = Inr frames) fs fss"
    "r = (acc @ frames) @ concat fss"
    by blast
  with l(1,2) have
    "list_all2 (\<lambda>f frames. \<exists>loaded. nb_load d f = Inr loaded
                       \<and> frames_of allow_4D loaded = Inr frames) (f # fs) (frames # fss)
     \<and> r = acc @ concat (frames # fss)"
    by simp
  then show ?case by blast
qed

lemma gather_bad:
  assumes "\<forall>f\<in>set fs. \<exists>file. d f = Some file" and "f \<in> set fs" and "nb_load d f = Inr loaded"
    and "n = ndim (dataobj (squeeze_image loaded))"
    and "(n = 4 \<and> \<not> allow_4D) \<or> (n \<noteq> 3 \<and> n \<noteq> 4)"
  shows "\<exists>m. gather allow_4D d fs acc = Inl (DimensionError m)"
  using assms(1,2)
proof (induction fs arbitrary: acc)
  case Nil
  then show ?case by simp
next
  case (Cons g fs)
  from Cons.prems(1) obtain stored where "d g = Some stored" by auto
  then obtain lg where lg: "nb_load d g = Inr lg"
    by (auto simp: nb_load_def)
  show ?case
  proof (cases "frames_of allow_4D lg")
    case (Inl e)
    then show ?thesis
      using lg frames_of_error [OF Inl] by auto
  next
    case (Inr frames)
    have "f \<noteq> g"
    proof
      assume "f = g"
      then have "lg = loaded" using lg assms(3) by simp
      then show False
        using Inr frames_of_bad [OF assms(4,5)] by simp
    qed
    then have "f \<in> set fs" using Cons.prems(2) by simp
    then show ?thesis
      using Cons.IH [of "acc @ frames"] Cons.prems(1) lg Inr by simp
  qed
qed


lemma concat_images_Inr:
  assumes "concat_images images = Inr img_4d"
  shows "images \<noteq> [] \<and>
    (\<forall>img\<in>set images. shape (dataobj img) = shape (dataobj (hd images))
        \<and> affine img = affine (hd images)) \<and>
    img_4d = new_image (stack_last (shape (dataobj (hd images))) (map dataobj images))
               (affine (hd images)) (header (hd images))"
  using assms
  by (auto simp: concat_images_def list_ex_iff split: list.splits if_splits)

lemma concat_images_mismatch:
  assumes "frame \<in> set frames"
    and "shape (dataobj frame) \<noteq> shape (dataobj (hd frames))
         \<or> affine frame \<noteq> affine (hd frames)"
  shows "concat_images frames = Inl GeometryMismatch"
proof (cases frames)
  case Nil
  then show ?thesis using assms(1) by simp
next
  case (Cons img0 rest)
  then have "list_ex (\<lambda>img. shape (dataobj img) \<noteq> shape (dataobj img0)
      \<or> affine img \<noteq> affine img0) frames"
    using assms unfolding list_ex_iff by auto
  then show ?thesis
    using Cons by (simp add: concat_images_def)
qed

text \<open>
  Claim C8, amended. Let every input file exist. If some input, after squeezing, has four
  axes while \<^verbatim>\<open>allow_4D\<close> is false, or has neither three nor four axes, \<^verbatim>\<open>MergeSeries\<close>
  raises the dimension error (of the first such input). If the loop gathers the frames
  and one of them differs from the first in its shape, or has an affine that is not equal
  to that of the first, it raises the error of \<^verbatim>\<open>nb.concat_images\<close>. That comparison of
  affines is an equality, without any tolerance.
\<close>

theorem MergeSeries_errors:
  assumes "\<forall>f\<in>set in_files. \<exists>stored. disk st f = Some stored"
  shows
   "(f \<in> set in_files \<and> disk st f = Some stored \<and>
     n = length (squeeze_shape (shape (f_dataobj stored))) \<and>
     ((n = 4 \<and> \<not> allow_4D) \<or> (n \<noteq> 3 \<and> n \<noteq> 4)) \<longrightarrow>
       (\<exists>m. fst (MergeSeries_run_interface in_files allow_4D st) = Raised (DimensionError m))) \<and>
    (gather allow_4D (disk st) in_files [] = Inr frames \<and> frame \<in> set frames \<and>
     (shape (dataobj frame) \<noteq> shape (dataobj (hd frames))
      \<or> affine frame \<noteq> affine (hd frames)) \<longrightarrow>
       fst (MergeSeries_run_interface in_files allow_4D st) = Raised GeometryMismatch)"
proof (intro conjI impI)
  assume a: "f \<in> set in_files \<and> disk st f = Some stored \<and>
     n = length (squeeze_shape (shape (f_dataobj stored))) \<and>
     ((n = 4 \<and> \<not> allow_4D) \<or> (n \<noteq> 3 \<and> n \<noteq> 4))"
  let ?loaded = "\<lparr>dataobj = f_dataobj stored, affine = Some (best_affine (f_header stored)),
                   header = f_header stored\<rparr>"
  have l: "nb_load (disk st) f = Inr ?loaded"
    using a by (simp add: nb_load_Some)
  have n: "n = ndim (dataobj (squeeze_image ?loaded))"
    using a by (simp add: squeeze_image_def new_image_def ndim_def)
  from gather_bad [OF assms _ l n, of allow_4D "[]"] a
  obtain m where "gather allow_4D (disk st) in_files [] = Inl (DimensionError m)"
    by blast
  then show "\<exists>m. fst (MergeSeries_run_interface in_files allow_4D st) = Raised (DimensionError m)"
    by (simp add: MergeSeries_run_interface_def)
next
  assume a: "gather allow_4D (disk st) in_files [] = Inr frames \<and> frame \<in> set frames \<and>
     (shape (dataobj frame) \<noteq> shape (dataobj (hd frames))
      \<or> affine frame \<noteq> affine (hd frames))"
  then have "concat_images frames = Inl GeometryMismatch"
    by (intro concat_images_mismatch [of frame]) simp_all
  then show "fst (MergeSeries_run_interface in_files allow_4D st) = Raised GeometryMismatch"
    using a by (simp add: MergeSeries_run_interface_def)
qed

text \<open>
  Claim C7. When \<^verbatim>\<open>MergeSeries\<close> returns, the list of inputs is not empty, every input is
  loaded and contributes its frames (\<open>input_frames\<close>: itself, or its slices in the order
  of its fourth axis), and the file written under the name of the first input with the
  suffix \<^verbatim>\<open>_merged\<close> is the stack, along a new last axis, of all these frames in the order
  of the inputs. It has four axes; its header and its affine are those of the first
  frame.
\<close>

theorem MergeSeries_output:
  assumes "fst (MergeSeries_run_interface in_files allow_4D st) = Returned"
  shows "\<exists>f0 rest fss out.
     in_files = f0 # rest \<and>
     list_all2 (\<lambda>f frames. \<exists>loaded. nb_load (disk st) f = Inr loaded
                  \<and> input_frames loaded frames) in_files fss \<and>
     concat fss \<noteq> [] \<and>
     disk (snd (MergeSeries_run_interface in_files allow_4D st))
        (fname_presuffix f0 ''_merged'' None) = Some out \<and>
     is_stack (concat fss) (f_dataobj out) \<and>
     ndim (f_dataobj out) = 4 \<and>
     f_header out = header (hd (concat fss)) \<and>
     Some (best_affine (f_header out)) = affine (hd (concat fss))"
proof -
  from assms obtain nii_list img_4d f0 rest where
    g: "gather allow_4D (disk st) in_files [] = Inr nii_list"
    and c: "concat_images nii_list = Inr img_4d"
    and i: "in_files = f0 # rest"
    by (auto simp: MergeSeries_run_interface_def Let_def split: sum.splits list.splits)
  let ?out = "\<lparr>f_dataobj = dataobj img_4d, f_header = update_header img_4d\<rparr>"
  have d: "disk (snd (MergeSeries_run_interface in_files allow_4D st))
        (fname_presuffix f0 ''_merged'' None) = Some ?out"
    using g c i by (simp add: MergeSeries_run_interface_def Let_def to_filename_def)
  from gather_Inr [OF g] obtain fss where
    fss: "list_all2 (\<lambda>f frames. \<exists>loaded. nb_load (disk st) f = Inr loaded
                  \<and> frames_of allow_4D loaded = Inr frames) in_files fss"
    and n: "nii_list = concat fss"
    by auto
  have spec: "list_all2 (\<lambda>f frames. \<exists>loaded. nb_load (disk st) f = Inr loaded
                  \<and> input_frames loaded frames) in_files fss"
    using fss by (rule list_all2_mono) (auto intro: frames_of_input_frames)
  note ci = concat_images_Inr [OF c]
  note ne = ci [THEN conjunct1]
  note img = ci [THEN conjunct2, THEN conjunct2]
  have same: "shape (dataobj img) = shape (dataobj (hd nii_list))"
    if "img \<in> set nii_list" for img
    using ci [THEN conjunct2, THEN conjunct1, THEN bspec, OF that] by (rule conjunct1)
  have frame: "ndim (dataobj fr) = 3 \<and> affine fr = Some (best_affine (header fr))"
    if "fr \<in> set nii_list" for fr
  proof -
    from that n obtain frames where fr: "frames \<in> set fss" "fr \<in> set frames"
      by auto
    from fr(1) obtain j where j: "j < length fss" "fss ! j = frames"
      by (auto simp: in_set_conv_nth)
    from list_all2_nthD2 [OF fss j(1)] j(2) obtain loaded where
      l: "nb_load (disk st) (in_files ! j) = Inr loaded"
        "frames_of allow_4D loaded = Inr frames"
      by auto
    have "affine loaded = Some (best_affine (header loaded))"
      using l(1) by (auto simp: nb_load_def split: option.splits)
    then show ?thesis
      using frames_of_frame [OF l(2) fr(2)] by simp
  qed
  have hd: "hd nii_list \<in> set nii_list"
    using ne by simp
  have upd: "update_header img_4d = header (hd nii_list)"
    using frame [OF hd] by (simp add: img update_header_def new_image_def allclose_refl)
  have item: "getitem (dataobj img_4d) (idx @ [k]) = getitem (dataobj (nii_list ! k)) idx"
    if "k < length nii_list" and "idx \<in> set (ndindex (shape (dataobj (hd nii_list))))" for k idx
  proof -
    have "shape (map dataobj nii_list ! k) = shape (dataobj (hd nii_list))"
      using that(1) same [of "nii_list ! k"] by simp
    then have "getitem (stack_last (shape (dataobj (hd nii_list))) (map dataobj nii_list))
        (idx @ [k]) = getitem (map dataobj nii_list ! k) idx"
      using that by (intro getitem_stack_last ndindex_valid) simp_all
    then show ?thesis
      using that(1) by (simp add: img new_image_def)
  qed
  have stack: "is_stack nii_list (dataobj img_4d)"
    unfolding is_stack_def list_all_iff
  proof (intro conjI ballI)
    show "shape (dataobj img_4d) = shape (dataobj (hd nii_list)) @ [length nii_list]"
      by (simp add: img new_image_def stack_last_def)
  next
    fix k idx
    assume "k \<in> set [0..<length nii_list]"
      and "idx \<in> set (ndindex (shape (dataobj (hd nii_list))))"
    then show "getitem (dataobj img_4d) (idx @ [k]) = getitem (dataobj (nii_list ! k)) idx"
      by (intro item) simp_all
  qed
  have nd: "ndim (dataobj img_4d) = 4"
    using frame [OF hd] by (simp add: img new_image_def stack_last_def ndim_def)
  have aff: "Some (best_affine (header (hd nii_list))) = affine (hd nii_list)"
    using frame [OF hd] by simp
  have "in_files = f0 # rest \<and>
     list_all2 (\<lambda>f frames. \<exists>loaded. nb_load (disk st) f = Inr loaded
                  \<and> input_frames loaded frames) in_files fss \<and>
     concat fss \<noteq> [] \<and>
     disk (snd (MergeSeries_run_interface in_files allow_4D st))
        (fname_presuffix f0 ''_merged'' None) = Some ?out \<and>
     is_stack (concat fss) (f_dataobj ?out) \<and>
     ndim (f_dataobj ?out) = 4 \<and>
     f_header ?out = header (hd (concat fss)) \<and>
     Some (best_affine (f_header ?out)) = affine (hd (concat fss))"
    using i spec ne d stack nd upd aff unfolding n
    by (intro conjI) simp_all
  then show ?thesis
    by blast
qed


text \<open>
  Claim C8, as stated, fails in its last part: two volumes of one shape whose affines are
  close in the sense of \<^verbatim>\<open>np.allclose\<close>, but not equal, are refused.
\<close>

theorem MergeSeries_affine_counterexample:
  "allclose ex_affine ex_nudged \<and>
   fst (MergeSeries_run_interface [ex_path ''a'', ex_path ''b''] True
         (ex_state [(ex_path ''a'', ex_file [1, 1, 2] [Num 1, Num 2] ex_affine),
                    (ex_path ''b'', ex_file [1, 1, 2] [Num 3, Num 4] ex_nudged)]))
     = Raised GeometryMismatch"
proof
  show "allclose ex_affine ex_nudged"
    by (rule close_nudged)
  show "fst (MergeSeries_run_interface [ex_path ''a'', ex_path ''b''] True
         (ex_state [(ex_path ''a'', ex_file [1, 1, 2] [Num 1, Num 2] ex_affine),
                    (ex_path ''b'', ex_file [1, 1, 2] [Num 3, Num 4] ex_nudged)]))
     = Raised GeometryMismatch"
    by (simp add: MergeSeries_run_interface_def nb_load_def ex_state_def
        ex_path_def ex_file_def squeeze_image_def squeeze_shape_def new_image_def ndim_def
        Let_def concat_images_def frames_of_def ex_affine_def ex_nudged_def)
qed

theorem MergeSeries_errors_witness:
  "(\<exists>m. fst (MergeSeries_run_interface [ex_path ''stat'', ex_path ''bold''] False ex_masking)
          = Raised (DimensionError m)) \<and>
   fst (MergeSeries_run_interface [ex_path ''t1'', ex_path ''t2''] True ex_disk)
     = Raised GeometryMismatch"
proof -
  have "\<exists>m. fst (MergeSeries_run_interface [ex_path ''stat'', ex_path ''bold''] False ex_masking)
          = Raised (DimensionError m)"
    using MergeSeries_errors [of "[ex_path ''stat'', ex_path ''bold'']" ex_masking
        "ex_path ''bold''" "ex_file [1, 1, 2, 2] [Num 1, Num 2, Num 3, Num 4] ex_affine" 4 False]
    by (simp add: ex_masking_def ex_state_def ex_path_def ex_file_def squeeze_shape_def)
  moreover have "fst (MergeSeries_run_interface [ex_path ''t1'', ex_path ''t2''] True ex_disk)
     = Raised GeometryMismatch"
    using MergeSeries_errors [of "[ex_path ''t1'', ex_path ''t2'']" ex_disk _ _ _ True
        "[\<lparr>dataobj = \<lparr>shape = [1, 1, 2], elems = [Num 1, Num 2]\<rparr>, affine = Some ex_affine,
            header = \<lparr>data_dtype = float32, best_affine = ex_affine, hdr_fields = []\<rparr>\<rparr>,
          \<lparr>dataobj = \<lparr>shape = [1, 1, 2], elems = [Num 3, Num 4]\<rparr>, affine = Some ex_shifted,
            header = \<lparr>data_dtype = float32, best_affine = ex_shifted, hdr_fields = []\<rparr>\<rparr>]"
        "\<lparr>dataobj = \<lparr>shape = [1, 1, 2], elems = [Num 3, Num 4]\<rparr>, affine = Some ex_shifted,
            header = \<lparr>data_dtype = float32, best_affine = ex_shifted, hdr_fields = []\<rparr>\<rparr>"]
    by (simp add: ex_disk_def ex_state_def ex_path_def ex_file_def nb_load_def frames_of_def
        squeeze_image_def squeeze_shape_def new_image_def ndim_def Let_def ex_affine_def
        ex_shifted_def)
  ultimately show ?thesis by simp
qed

theorem MergeSeries_output_witness:
  "\<exists>f0 rest fss out.
     [ex_path ''a'', ex_path ''b'', ex_path ''c''] = f0 # rest \<and>
     list_all2 (\<lambda>f frames. \<exists>loaded. nb_load (disk ex_series) f = Inr loaded
                  \<and> input_frames loaded frames)
       [ex_path ''a'', ex_path ''b'', ex_path ''c''] fss \<and>
     concat fss \<noteq> [] \<and>
     disk (snd (MergeSeries_run_interface [ex_path ''a'', ex_path ''b'', ex_path ''c''] True
                  ex_series))
        (fname_presuffix f0 ''_merged'' None) = Some out \<and>
     is_stack (concat fss) (f_dataobj out) \<and>
     ndim (f_dataobj out) = 4 \<and>
     f_header out = header (hd (concat fss)) \<and>
     Some (best_affine (f_header out)) = affine (hd (concat fss))"
  by (rule MergeSeries_output)
     (simp add: MergeSeries_run_interface_def nb_load_def ex_series_def ex_state_def
        ex_path_def ex_file_def squeeze_image_def squeeze_shape_def new_image_def ndim_def
        Let_def concat_images_def frames_of_def)

end
